theory Spec2Isabelle
  imports Main "HOL-Library.Word"
begin

section \<open>Values, errors and the godbus interface\<close>

text \<open>
  The binding (package \<open>rauc\<close>) is a client of the godbus library. The library and the
  daemon behind it are not part of the repository, so they enter the model as parameters:
  \<^item> the package-level functions (\<open>dbus.SystemBus\<close>, \<open>dbus.Store\<close> at each destination
    type the binding uses, \<open>Variant.String\<close>) are the fields of the record \<open>godbus\<close>;
  \<^item> a connection and a remote object are records of what their methods answer.

  A Go \<open>error\<close> is identified with the text its \<open>Error()\<close> method gives, \<open>nil\<close> is
  \<open>None\<close> of \<open>error option\<close>, and a Go function with several results returns a tuple.
\<close>

type_synonym int32 = "32 word"

datatype error = errors_New string

fun Error :: "error \<Rightarrow> string" where
  "Error (errors_New text) = text"

text \<open>\<open>fmt.Errorf(format, err)\<close> for the formats of the source, which all are a fixed
  text followed by \<open>%v\<close>: the argument is the fixed text.\<close>

definition Errorf :: "string \<Rightarrow> error \<Rightarrow> error" where
  "Errorf format err = errors_New (format @ Error err)"

text \<open>The Go values that travel in message bodies and variants (\<open>interface{}\<close>).\<close>

datatype dvalue =
    DInt32 int32
  | DUint32 "32 word"
  | DBool bool
  | DString string
  | DStruct "dvalue list"
  | DArray "dvalue list"
  | DDict "(dvalue \<times> dvalue) list"
  | DVariant dvalue

datatype Variant = MakeVariant (Value: dvalue)

record Signal =
  Sender :: string
  Path :: string
  Name :: string
  Body :: "dvalue list"

text \<open>What one receive \<open>signal, ok := <-doneChannel\<close> does: it yields a signal, or it
  finds the channel closed (\<open>ok\<close> is false), or it blocks for ever.\<close>

datatype receive = Received Signal | Closed | Blocked

datatype MatchOption =
    WithMatchInterface string
  | WithMatchMember string
  | WithMatchObjectPath string

text \<open>
  A remote object. \<open>Call method args\<close> is the \<open>Err\<close> or the \<open>Body\<close> of the call.
  \<open>GetProperty now name\<close> is the answer to a property read made at the moment \<open>now\<close>,
  where a moment is the number of receives the caller has performed so far: the daemon
  may change a property while an install is awaited.
  \<open>object_AddMatchSignal\<close> is the method \<open>AddMatchSignal\<close> of godbus v4 objects.
\<close>

record BusObject =
  Call :: "string \<Rightarrow> dvalue list \<Rightarrow> error + dvalue list"
  GetProperty :: "nat \<Rightarrow> string \<Rightarrow> error + Variant"
  ObjectPath :: string
  object_AddMatchSignal :: "string \<Rightarrow> string \<Rightarrow> MatchOption list \<Rightarrow> error option"

text \<open>A connection. \<open>doneChannel c i\<close> is what receive number \<open>i\<close> (from 0) does on a
  channel registered with \<open>c.Signal\<close>.\<close>

record Conn =
  Object :: "string \<Rightarrow> string \<Rightarrow> BusObject"
  AddMatchSignal :: "MatchOption list \<Rightarrow> error option"
  doneChannel :: "nat \<Rightarrow> receive"

record SlotStatus =
  SlotName :: string
  Status :: "string \<rightharpoonup> Variant"

text \<open>The local struct \<open>progressResponse\<close> of \<open>GetProgress\<close>: its fields are
  exported in the current package and unexported in \<open>installer.go\<close>.\<close>

record progressResponse =
  Percentage :: int32
  Message :: string
  NestingDepth :: int32

record progressResponse_v4 =
  percentage :: int32
  message :: string
  nestingDepth :: int32

text \<open>\<open>dbus.Store(src, &dest)\<close> writes into \<open>dest\<close> and returns an error or \<open>nil\<close>:
  each \<open>Store_T src\<close> is the content of a destination of type \<open>T\<close> after the call (it
  held the zero value before) and the error.\<close>

record godbus =
  SystemBus :: "error + Conn"
  Store_int32 :: "dvalue list \<Rightarrow> int32 \<times> error option"
  Store_progressResponse :: "dvalue list \<Rightarrow> progressResponse \<times> error option"
  Store_progressResponse_v4 :: "dvalue list \<Rightarrow> progressResponse_v4 \<times> error option"
  Store_SlotStatus :: "dvalue list \<Rightarrow> SlotStatus list \<times> error option"
  Variant_String :: "Variant \<Rightarrow> string"

section \<open>The binding\<close>

record Installer =
  conn :: Conn
  object :: BusObject

definition dbusInterface :: string where
  "dbusInterface = ''de.pengutronix.rauc''"

text \<open>\<open>InstallerNew\<close> of the current package (godbus v5): the result of
  \<open>p.conn.AddMatchSignal\<close> is dropped.\<close>

definition InstallerNew :: "godbus \<Rightarrow> Installer option \<times> error option" where
  "InstallerNew d =
     (case SystemBus d of
        Inl err \<Rightarrow> (None, Some err)
      | Inr c \<Rightarrow>
          (let obj = Object c dbusInterface ''/'';
               _ = AddMatchSignal c
                     [WithMatchInterface (dbusInterface @ ''.'' @ ''Installer''),
                      WithMatchMember ''Completed'',
                      WithMatchObjectPath (ObjectPath obj)]
           in (Some \<lparr>conn = c, object = obj\<rparr>, None)))"

text \<open>\<open>InstallerNew\<close> of \<open>installer.go\<close> (godbus v4): the subscription goes through the
  object, and its result is dropped as well.\<close>

definition InstallerNew_v4 :: "godbus \<Rightarrow> Installer option \<times> error option" where
  "InstallerNew_v4 d =
     (case SystemBus d of
        Inl err \<Rightarrow> (None, Some err)
      | Inr c \<Rightarrow>
          (let obj = Object c dbusInterface ''/'';
               _ = object_AddMatchSignal obj (dbusInterface @ ''.'' @ ''Installer'') ''Completed''
                     [WithMatchObjectPath (ObjectPath obj)]
           in (Some \<lparr>conn = c, object = obj\<rparr>, None)))"

definition interfaceForMember :: "string \<Rightarrow> string" where
  "interfaceForMember method = dbusInterface @ ''.'' @ ''Installer'' @ ''.'' @ method"

subsection \<open>Properties\<close>


definition GetLastError :: "godbus \<Rightarrow> Installer \<Rightarrow> nat \<Rightarrow> string \<times> error option" where
  "GetLastError d p now =
     (case GetProperty (object p) now (interfaceForMember ''LastError'') of
        Inl err \<Rightarrow> ('''', Some (Errorf ''RAUC: GetLastError(): '' err))
      | Inr v \<Rightarrow> (Variant_String d v, None))"




text \<open>\<open>GetProgress\<close> of the current package.\<close>

definition GetProgress ::
  "godbus \<Rightarrow> Installer \<Rightarrow> nat \<Rightarrow> int32 \<times> string \<times> int32 \<times> error option" where
  "GetProgress d p now =
     (case GetProperty (object p) now (interfaceForMember ''Progress'') of
        Inl err \<Rightarrow> (- 1, '''', - 1, Some (Errorf ''RAUC: GetProperty(Progress): '' err))
      | Inr variant \<Rightarrow>
          (let src = [Value variant]
           in case Store_progressResponse d src of
                (response, Some err) \<Rightarrow>
                  (- 1, '''', - 1, Some (Errorf ''RAUC: Cannot store result: '' err))
              | (response, None) \<Rightarrow>
                  (Percentage response, Message response, NestingDepth response, None)))"

text \<open>\<open>GetProgress\<close> of \<open>installer.go\<close>: the result of \<open>dbus.Store\<close> is dropped.\<close>

definition GetProgress_v4 ::
  "godbus \<Rightarrow> Installer \<Rightarrow> nat \<Rightarrow> int32 \<times> string \<times> int32 \<times> error option" where
  "GetProgress_v4 d p now =
     (case GetProperty (object p) now (interfaceForMember ''Progress'') of
        Inl err \<Rightarrow> (- 1, '''', - 1, Some (Errorf ''RAUC: GetProperty(Progress): '' err))
      | Inr variant \<Rightarrow>
          (let src = [Value variant];
               (response, _) = Store_progressResponse_v4 d src
           in (percentage response, message response, nestingDepth response, None)))"

subsection \<open>GetSlotStatus\<close>

text \<open>\<open>Call(...).Store(&status)\<close> returns the error of the call when there is one and
  stores the body of the reply otherwise.\<close>

definition GetSlotStatus :: "godbus \<Rightarrow> Installer \<Rightarrow> SlotStatus list \<times> error option" where
  "GetSlotStatus d p =
     (case Call (object p) (interfaceForMember ''GetSlotStatus'') [] of
        Inl err \<Rightarrow> ([], Some (Errorf ''RAUC: GetSlotStatus(): '' err))
      | Inr body \<Rightarrow>
          (case Store_SlotStatus d body of
             (status, Some err) \<Rightarrow> ([], Some (Errorf ''RAUC: GetSlotStatus(): '' err))
           | (status, None) \<Rightarrow> (status, None)))"

text \<open>
  Modelled from the spec: the decoder behind \<open>Store(&status)\<close> is godbus's \<open>Store\<close> at
  the type \<open>[]SlotStatus\<close>; the library is not under \<open>src/\<close>. The spec (4.2, step 8)
  says that the read "decodes a sequence of (slot name, attribute-mapping) pairs, where
  each attribute mapping is string-keyed with dynamically-typed values", and the reply
  has the type \<open>sequence<(slotName: string, attributes: map<string, variant>)>\<close>. An
  attribute mapping is built by inserting its pairs in order, as a Go map is.
\<close>

fun decodeAttribute :: "dvalue \<times> dvalue \<Rightarrow> (string \<times> Variant) option" where
  "decodeAttribute (DString key, DVariant v) = Some (key, MakeVariant v)"
| "decodeAttribute _ = None"

definition makeStatus :: "(string \<times> Variant) list \<Rightarrow> (string \<rightharpoonup> Variant)" where
  "makeStatus attributes = fold (\<lambda>(key, v) m. m(key \<mapsto> v)) attributes Map.empty"

fun decodeSlot :: "dvalue \<Rightarrow> SlotStatus option" where
  "decodeSlot (DStruct [DString name, DDict pairs]) =
     (case those (map decodeAttribute pairs) of
        None \<Rightarrow> None
      | Some attributes \<Rightarrow> Some \<lparr>SlotName = name, Status = makeStatus attributes\<rparr>)"
| "decodeSlot _ = None"

fun decodeSlotStatus :: "dvalue list \<Rightarrow> SlotStatus list \<times> error option" where
  "decodeSlotStatus [DArray entries] =
     (case those (map decodeSlot entries) of
        None \<Rightarrow> ([], Some (errors_New ''dbus.Store: type mismatch''))
      | Some status \<Rightarrow> (status, None))"
| "decodeSlotStatus _ = ([], Some (errors_New ''dbus.Store: length mismatch''))"

subsection \<open>Install and InstallBundle\<close>

text \<open>
  The \<open>for\<close> loop of \<open>Install\<close> (\<open>installer.go\<close>) and of \<open>InstallBundle\<close> (the current
  package): the two loops are the same text. \<open>awaitCompleted d p n\<close> runs the loop from
  receive number \<open>n\<close>. It returns the error (or \<open>nil\<close>) of the operation together with the
  number of receives performed so far, and \<open>None\<close> when the loop never returns.
\<close>

partial_function (option) awaitCompleted ::
  "godbus \<Rightarrow> Installer \<Rightarrow> nat \<Rightarrow> (error option \<times> nat) option" where
  "awaitCompleted d p n =
     (case doneChannel (conn p) n of
        Closed \<Rightarrow> Some (Some (errors_New ''RAUC: Cannot read from channel''), Suc n)
      | Blocked \<Rightarrow> None
      | Received signal \<Rightarrow>
          if Name signal = interfaceForMember ''Completed'' then
            (case Store_int32 d (Body signal) of
               (code, Some err) \<Rightarrow> Some (Some err, Suc n)
             | (code, None) \<Rightarrow>
                 if code \<noteq> 0 then
                   (case GetLastError d p (Suc n) of
                      (errorString, Some err) \<Rightarrow> Some (Some err, Suc n)
                    | (errorString, None) \<Rightarrow> Some (Some (errors_New errorString), Suc n))
                 else Some (None, Suc n))
          else awaitCompleted d p (Suc n))"

definition Install :: "godbus \<Rightarrow> Installer \<Rightarrow> string \<Rightarrow> (error option \<times> nat) option" where
  "Install d p filename =
     (case Call (object p) (interfaceForMember ''Install'') [DString filename] of
        Inl err \<Rightarrow> Some (Some (Errorf ''RAUC: Install(): '' err), 0)
      | Inr body \<Rightarrow> awaitCompleted d p 0)"

record InstallBundleOptions =
  IgnoreIncompatible :: bool

definition InstallBundle ::
  "godbus \<Rightarrow> Installer \<Rightarrow> string \<Rightarrow> InstallBundleOptions \<Rightarrow> (error option \<times> nat) option" where
  "InstallBundle d p filename options =
     (let args = DDict [(DString ''ignore-compatible'', DBool (IgnoreIncompatible options))]
      in case Call (object p) (interfaceForMember ''InstallBundle'') [DString filename, args] of
           Inl err \<Rightarrow> Some (Some (Errorf ''RAUC: Install(): '' err), 0)
         | Inr body \<Rightarrow> awaitCompleted d p 0)"

section \<open>Vocabulary of the properties\<close>

text \<open>A receive is unrelated when it yields a signal whose name is not that of the
  \<open>Completed\<close> member of the control interface.\<close>

fun unrelated :: "receive \<Rightarrow> bool" where
  "unrelated (Received signal) = (Name signal \<noteq> interfaceForMember ''Completed'')"
| "unrelated Closed = False"
| "unrelated Blocked = False"

text \<open>The receives before number \<open>n\<close> are all unrelated.\<close>

definition onlyUnrelated :: "Conn \<Rightarrow> nat \<Rightarrow> bool" where
  "onlyUnrelated c n = list_all (\<lambda>i. unrelated (doneChannel c i)) [0..<n]"

text \<open>How a slot entry of a \<open>GetSlotStatus\<close> reply looks as a Go value.\<close>

definition slotEntry :: "string \<Rightarrow> (string \<times> dvalue) list \<Rightarrow> dvalue" where
  "slotEntry name attributes =
     DStruct [DString name, DDict (map (\<lambda>(key, v). (DString key, DVariant v)) attributes)]"

text \<open>The answer to the call that starts an install.\<close>

definition InstallCall :: "Installer \<Rightarrow> string \<Rightarrow> error + dvalue list" where
  "InstallCall p filename = Call (object p) (interfaceForMember ''Install'') [DString filename]"

definition InstallBundleCall ::
  "Installer \<Rightarrow> string \<Rightarrow> InstallBundleOptions \<Rightarrow> error + dvalue list" where
  "InstallBundleCall p filename options =
     Call (object p) (interfaceForMember ''InstallBundle'')
       [DString filename,
        DDict [(DString ''ignore-compatible'', DBool (IgnoreIncompatible options))]]"


section \<open>Example daemons\<close>

text \<open>Concrete buses on which the theorems below are exercised.\<close>

definition scripted :: "receive list \<Rightarrow> receive \<Rightarrow> nat \<Rightarrow> receive" where
  "scripted script rest i = (if i < length script then script ! i else rest)"

definition progressSignal :: Signal where
  "progressSignal = \<lparr>Sender = '':1.7'', Path = ''/'',
     Name = ''org.freedesktop.DBus.Properties.PropertiesChanged'',
     Body = [DString ''de.pengutronix.rauc.Installer'']\<rparr>"

definition completedSignal :: "int32 \<Rightarrow> Signal" where
  "completedSignal code = \<lparr>Sender = '':1.7'', Path = ''/'',
     Name = ''de.pengutronix.rauc.Installer.Completed'', Body = [DInt32 code]\<rparr>"

definition exampleReply :: "dvalue list" where
  "exampleReply = [DArray
     [slotEntry ''rootfs.0''
        [(''class'', DString ''rootfs''), (''state'', DString ''booted''),
         (''device'', DString ''/dev/mmcblk0p1'')],
      slotEntry ''rootfs.1''
        [(''class'', DString ''rootfs''), (''state'', DString ''inactive''),
         (''device'', DString ''/dev/mmcblk0p2'')]]]"

text \<open>A daemon that answers every call, whose \<open>LastError\<close> is empty until three signals
  have been received, and whose \<open>Progress\<close> is \<open>(42, "copying image", 1)\<close>.\<close>

definition exampleObject :: BusObject where
  "exampleObject = \<lparr>
     Call = (\<lambda>method args.
        if method = ''de.pengutronix.rauc.Installer.GetSlotStatus'' then Inr exampleReply
        else Inr []),
     GetProperty = (\<lambda>now name.
        if name = ''de.pengutronix.rauc.Installer.LastError''
        then Inr (MakeVariant (DString (if now < 3 then [] else ''Failed to verify bundle'')))
        else if name = ''de.pengutronix.rauc.Installer.Progress''
        then Inr (MakeVariant (DStruct [DInt32 42, DString ''copying image'', DInt32 1]))
        else Inr (MakeVariant (DString ''idle''))),
     ObjectPath = ''/'',
     object_AddMatchSignal = (\<lambda>iface member options. Some (errors_New ''match rule refused''))\<rparr>"

text \<open>A daemon whose every property, \<open>Progress\<close> included, reads as a string.\<close>

definition idleObject :: BusObject where
  "idleObject = \<lparr>
     Call = (\<lambda>method args. Inr []),
     GetProperty = (\<lambda>now name. Inr (MakeVariant (DString ''idle''))),
     ObjectPath = ''/'',
     object_AddMatchSignal = (\<lambda>iface member options. None)\<rparr>"

text \<open>No daemon owns the bus name.\<close>

definition absentObject :: BusObject where
  "absentObject = \<lparr>
     Call = (\<lambda>method args. Inl (errors_New ''The name de.pengutronix.rauc was not provided'')),
     GetProperty = (\<lambda>now name. Inl (errors_New ''The name de.pengutronix.rauc was not provided'')),
     ObjectPath = ''/'',
     object_AddMatchSignal = (\<lambda>iface member options. Some (errors_New ''match rule refused''))\<rparr>"

text \<open>A connection that refuses every match rule.\<close>

definition exampleConn :: "BusObject \<Rightarrow> (nat \<Rightarrow> receive) \<Rightarrow> Conn" where
  "exampleConn obj channel = \<lparr>
     Object = (\<lambda>dest path. obj),
     AddMatchSignal = (\<lambda>options. Some (errors_New ''match rule refused'')),
     doneChannel = channel\<rparr>"

definition exampleInstaller :: "BusObject \<Rightarrow> (nat \<Rightarrow> receive) \<Rightarrow> Installer" where
  "exampleInstaller obj channel = \<lparr>conn = exampleConn obj channel, object = obj\<rparr>"

text \<open>A library whose \<open>Store\<close> accepts the values of the expected shape and nothing else,
  and whose \<open>Variant.String\<close> puts a string between double quotes.\<close>

definition exampleLibrary :: "error + Conn \<Rightarrow> godbus" where
  "exampleLibrary bus = \<lparr>
     SystemBus = bus,
     Store_int32 = (\<lambda>src. case src of
         [DInt32 code] \<Rightarrow> (code, None)
       | _ \<Rightarrow> (0, Some (errors_New ''dbus.Store: type mismatch''))),
     Store_progressResponse = (\<lambda>src. case src of
         [DStruct [DInt32 a, DString m, DInt32 b]] \<Rightarrow>
           (\<lparr>Percentage = a, Message = m, NestingDepth = b\<rparr>, None)
       | _ \<Rightarrow> (\<lparr>Percentage = 0, Message = [], NestingDepth = 0\<rparr>,
                Some (errors_New ''dbus.Store: type mismatch''))),
     Store_progressResponse_v4 = (\<lambda>src. case src of
         [DStruct [DInt32 a, DString m, DInt32 b]] \<Rightarrow>
           (\<lparr>percentage = a, message = m, nestingDepth = b\<rparr>, None)
       | _ \<Rightarrow> (\<lparr>percentage = 0, message = [], nestingDepth = 0\<rparr>,
                Some (errors_New ''dbus.Store: type mismatch''))),
     Store_SlotStatus = decodeSlotStatus,
     Variant_String = (\<lambda>v. case Value v of
         DString s \<Rightarrow> CHR 0x22 # s @ [CHR 0x22]
       | _ \<Rightarrow> ''?'')\<rparr>"

definition noBus :: "error + Conn" where
  "noBus = Inl (errors_New ''dial unix /var/run/dbus/system_bus_socket: no such file'')"

definition exampleLib :: godbus where
  "exampleLib = exampleLibrary noBus"

text \<open>Two property notifications, then \<open>Completed\<close> with code 1, then silence.\<close>

definition installFails :: Installer where
  "installFails = exampleInstaller exampleObject
     (scripted [Received progressSignal, Received progressSignal, Received (completedSignal 1)]
        Blocked)"

text \<open>One property notification, then \<open>Completed\<close> with code 0, then \<open>Completed\<close> with
  code 7 for ever.\<close>

definition installSucceeds :: Installer where
  "installSucceeds = exampleInstaller exampleObject
     (scripted [Received progressSignal, Received (completedSignal 0)]
        (Received (completedSignal 7)))"

text \<open>One property notification, then the channel is closed.\<close>

definition busCloses :: Installer where
  "busCloses = exampleInstaller exampleObject (scripted [Received progressSignal] Closed)"

text \<open>Property notifications for ever.\<close>

definition neverCompletes :: Installer where
  "neverCompletes = exampleInstaller exampleObject (scripted [] (Received progressSignal))"

definition daemonAbsent :: Installer where
  "daemonAbsent = exampleInstaller absentObject (scripted [] Blocked)"

definition daemonIdle :: Installer where
  "daemonIdle = exampleInstaller idleObject (scripted [] Blocked)"

section \<open>The wait loop\<close>

lemmas example_defs =
  scripted_def progressSignal_def completedSignal_def exampleObject_def absentObject_def
  idleObject_def exampleConn_def exampleInstaller_def exampleLibrary_def exampleLib_def
  noBus_def interfaceForMember_def dbusInterface_def InstallCall_def InstallBundleCall_def
  onlyUnrelated_def

lemma onlyUnrelated_Suc:
  "onlyUnrelated c (Suc n) = (onlyUnrelated c n \<and> unrelated (doneChannel c n))"
  by (simp add: onlyUnrelated_def)

text \<open>An unrelated signal costs one turn of the loop and nothing else.\<close>

lemma awaitCompleted_unrelated:
  "unrelated (doneChannel (conn p) n) \<Longrightarrow> awaitCompleted d p n = awaitCompleted d p (Suc n)"
proof (cases "doneChannel (conn p) n")
  case (Received s)
  moreover assume "unrelated (doneChannel (conn p) n)"
  ultimately show ?thesis by (subst awaitCompleted.simps) simp
qed simp_all

lemma awaitCompleted_skip:
  "onlyUnrelated (conn p) n \<Longrightarrow> awaitCompleted d p 0 = awaitCompleted d p n"
  by (induction n) (simp_all add: onlyUnrelated_def awaitCompleted_unrelated)

lemma awaitCompleted_Completed:
  assumes "doneChannel (conn p) n = Received signal"
    and "Name signal = interfaceForMember ''Completed''"
  shows "awaitCompleted d p n =
    (case Store_int32 d (Body signal) of
       (code, Some err) \<Rightarrow> Some (Some err, Suc n)
     | (code, None) \<Rightarrow>
         if code \<noteq> 0 then
           (case GetLastError d p (Suc n) of
              (errorString, Some err) \<Rightarrow> Some (Some err, Suc n)
            | (errorString, None) \<Rightarrow> Some (Some (errors_New errorString), Suc n))
         else Some (None, Suc n))"
  using assms by (subst awaitCompleted.simps) simp

lemma awaitCompleted_Closed:
  "doneChannel (conn p) n = Closed \<Longrightarrow>
     awaitCompleted d p n = Some (Some (errors_New ''RAUC: Cannot read from channel''), Suc n)"
  by (subst awaitCompleted.simps) simp

text \<open>When the loop returns, its last receive found the channel closed or a \<open>Completed\<close>
  signal: rule induction on the loop.\<close>

lemma awaitCompleted_returns:
  "awaitCompleted d p n = Some y \<Longrightarrow>
     \<exists>k\<ge>n. snd y = Suc k \<and> \<not> unrelated (doneChannel (conn p) k) \<and>
       doneChannel (conn p) k \<noteq> Blocked"
proof (induction rule: awaitCompleted.raw_induct[rotated 1, consumes 1])
  case (1 await d p n y)
  show ?case
  proof (cases "unrelated (doneChannel (conn p) n)")
    case True
    then obtain s where "doneChannel (conn p) n = Received s"
      and "Name s \<noteq> interfaceForMember ''Completed''"
      by (cases "doneChannel (conn p) n") simp_all
    with 1 have "\<exists>k\<ge>Suc n. snd y = Suc k \<and> \<not> unrelated (doneChannel (conn p) k) \<and>
        doneChannel (conn p) k \<noteq> Blocked"
      by simp
    then show ?thesis using Suc_leD by blast
  next
    case False
    with 1(2) have "snd y = Suc n \<and> doneChannel (conn p) n \<noteq> Blocked"
      by (cases "doneChannel (conn p) n") (auto split: if_splits prod.splits option.splits)
    with False show ?thesis by blast
  qed
qed

lemma Install_awaits:
  "\<not> isl (InstallCall p filename) \<Longrightarrow> Install d p filename = awaitCompleted d p 0"
  by (cases "InstallCall p filename") (simp_all add: Install_def InstallCall_def)

lemma InstallBundle_awaits:
  "\<not> isl (InstallBundleCall p filename options) \<Longrightarrow>
     InstallBundle d p filename options = awaitCompleted d p 0"
  by (cases "InstallBundleCall p filename options")
    (simp_all add: InstallBundle_def InstallBundleCall_def)

text \<open>The loop on a non-zero code: what \<open>GetLastError\<close> answers decides the result.\<close>

lemma awaitCompleted_nonzero:
  assumes "onlyUnrelated (conn p) n"
    and "doneChannel (conn p) n = Received signal"
    and "Name signal = interfaceForMember ''Completed''"
    and "Store_int32 d (Body signal) = (C, None)"
    and "C \<noteq> 0"
  shows "awaitCompleted d p 0 =
    (case GetLastError d p (Suc n) of
       (errorString, Some err) \<Rightarrow> Some (Some err, Suc n)
     | (errorString, None) \<Rightarrow> Some (Some (errors_New errorString), Suc n))"
  using assms(4,5) awaitCompleted_skip[OF assms(1), of d]
  by (simp add: awaitCompleted_Completed[OF assms(2,3)])

text \<open>When the read of \<open>LastError\<close> fails itself, that failure is what the install
  returns.\<close>

lemma awaitCompleted_LastError_unreadable:
  assumes "onlyUnrelated (conn p) n"
    and "doneChannel (conn p) n = Received signal"
    and "Name signal = interfaceForMember ''Completed''"
    and "Store_int32 d (Body signal) = (C, None)"
    and "C \<noteq> 0"
    and "GetProperty (object p) (Suc n) (interfaceForMember ''LastError'') = Inl err"
  shows "awaitCompleted d p 0 = Some (Some (Errorf ''RAUC: GetLastError(): '' err), Suc n)"
  using assms(6) by (simp add: awaitCompleted_nonzero[OF assms(1-5)] GetLastError_def)

section \<open>The install operation\<close>

text \<open>
  C1. A \<open>Completed\<close> signal received while awaiting (after any number of unrelated
  signals) carries a code \<open>C \<noteq> 0\<close>, and the read of \<open>LastError\<close> made at that moment yields
  the value \<open>v\<close>. Then \<open>Install\<close> and \<open>InstallBundle\<close> return an error whose message is the
  string of \<open>v\<close>, the one \<open>GetLastError\<close> gives at that moment. The code is not in the
  message: with any other non-zero code the wait returns the same.
\<close>

theorem Install_reports_LastError:
  assumes "onlyUnrelated (conn p) n"
    and "doneChannel (conn p) n = Received signal"
    and "Name signal = interfaceForMember ''Completed''"
    and "Store_int32 d (Body signal) = (C, None)"
    and "C \<noteq> 0"
    and "GetProperty (object p) (Suc n) (interfaceForMember ''LastError'') = Inr v"
  shows "(\<not> isl (InstallCall p filename) \<longrightarrow>
            Install d p filename = Some (Some (errors_New (Variant_String d v)), Suc n)) \<and>
         (\<not> isl (InstallBundleCall p filename options) \<longrightarrow>
            InstallBundle d p filename options =
              Some (Some (errors_New (Variant_String d v)), Suc n)) \<and>
         GetLastError d p (Suc n) = (Variant_String d v, None) \<and>
         (\<forall>C'. C' \<noteq> 0 \<longrightarrow>
            awaitCompleted (d\<lparr>Store_int32 := \<lambda>src. (C', None)\<rparr>) p 0 = awaitCompleted d p 0)"
proof -
  have g: "GetLastError d' p (Suc n) = (Variant_String d v, None)"
    if "Variant_String d' = Variant_String d" for d'
    using assms(6) that by (simp add: GetLastError_def)
  have r: "awaitCompleted d p 0 = Some (Some (errors_New (Variant_String d v)), Suc n)"
    using g[of d] by (simp add: awaitCompleted_nonzero[OF assms(1-5)])
  have "awaitCompleted (d\<lparr>Store_int32 := \<lambda>src. (C', None)\<rparr>) p 0 = awaitCompleted d p 0"
    if "C' \<noteq> 0" for C'
    using that g[of "d\<lparr>Store_int32 := \<lambda>src. (C', None)\<rparr>"] r
    by (simp add: awaitCompleted_nonzero[OF assms(1-3) _ that])
  with r g[of d] show ?thesis
    by (simp add: Install_awaits InstallBundle_awaits)
qed

theorem Install_reports_LastError_witness:
  "Install exampleLib installFails ''/tmp/update.raucb'' =
     Some (Some (errors_New (CHR 0x22 # ''Failed to verify bundle'' @ [CHR 0x22])), 3) \<and>
   InstallBundle exampleLib installFails ''/tmp/update.raucb'' \<lparr>IgnoreIncompatible = True\<rparr> =
     Some (Some (errors_New (CHR 0x22 # ''Failed to verify bundle'' @ [CHR 0x22])), 3) \<and>
   GetLastError exampleLib installFails 2 = ([CHR 0x22, CHR 0x22], None)"
  using Install_reports_LastError [of installFails 2 "completedSignal 1" exampleLib 1
      "MakeVariant (DString ''Failed to verify bundle'')" "''/tmp/update.raucb''"
      "\<lparr>IgnoreIncompatible = True\<rparr>"]
  by (simp add: installFails_def example_defs GetLastError_def eval_nat_numeral)

text \<open>
  C2. A \<open>Completed\<close> signal received while awaiting carries a payload that decodes to
  the code zero. Then \<open>Install\<close> and \<open>InstallBundle\<close> return \<open>nil\<close>, whatever the unrelated
  signals before it held, whatever follows on the channel and whatever the properties
  of the daemon are.
\<close>

theorem Install_succeeds_on_zero:
  assumes "onlyUnrelated (conn p) n"
    and "doneChannel (conn p) n = Received signal"
    and "Name signal = interfaceForMember ''Completed''"
    and "Store_int32 d (Body signal) = (0, None)"
  shows "(\<not> isl (InstallCall p filename) \<longrightarrow> Install d p filename = Some (None, Suc n)) \<and>
         (\<not> isl (InstallBundleCall p filename options) \<longrightarrow>
            InstallBundle d p filename options = Some (None, Suc n))"
proof -
  have "awaitCompleted d p n = Some (None, Suc n)"
    using assms(4) by (simp add: awaitCompleted_Completed[OF assms(2,3)])
  then have "awaitCompleted d p 0 = Some (None, Suc n)"
    using awaitCompleted_skip[OF assms(1)] by simp
  then show ?thesis by (simp add: Install_awaits InstallBundle_awaits)
qed

theorem Install_succeeds_on_zero_witness:
  "Install exampleLib installSucceeds ''/tmp/update.raucb'' = Some (None, 2) \<and>
   InstallBundle exampleLib installSucceeds ''/tmp/update.raucb'' \<lparr>IgnoreIncompatible = False\<rparr> =
     Some (None, 2)"
  using Install_succeeds_on_zero [of installSucceeds 1 "completedSignal 0" exampleLib
      "''/tmp/update.raucb''" "\<lparr>IgnoreIncompatible = False\<rparr>"]
  by (simp add: installSucceeds_def example_defs eval_nat_numeral)

text \<open>
  C3. While the install awaits completion, the signals whose name is not the \<open>Completed\<close>
  member of the control interface are discarded: after \<open>n\<close> of them the operation is the
  wait that starts at receive \<open>n\<close>, in which they play no part. None of them makes the
  operation return: when it returns after \<open>k\<close> receives, \<open>k\<close> is beyond them and the
  last receive, number \<open>k - 1\<close>, was not an unrelated signal.
\<close>

theorem Install_discards_unrelated:
  assumes "onlyUnrelated (conn p) n"
  shows "(\<not> isl (InstallCall p filename) \<longrightarrow> Install d p filename = awaitCompleted d p n) \<and>
         (\<not> isl (InstallBundleCall p filename options) \<longrightarrow>
            InstallBundle d p filename options = awaitCompleted d p n) \<and>
         (\<forall>r k. awaitCompleted d p 0 = Some (r, k) \<longrightarrow>
            n < k \<and> \<not> unrelated (doneChannel (conn p) (k - 1)))"
proof -
  have skip: "awaitCompleted d p 0 = awaitCompleted d p n"
    by (rule awaitCompleted_skip[OF assms])
  have "n < k \<and> \<not> unrelated (doneChannel (conn p) (k - 1))"
    if "awaitCompleted d p 0 = Some (r, k)" for r k
  proof -
    from that skip have "awaitCompleted d p n = Some (r, k)" by simp
    from awaitCompleted_returns[OF this] show ?thesis by auto
  qed
  with skip show ?thesis by (simp add: Install_awaits InstallBundle_awaits)
qed

theorem Install_discards_unrelated_witness:
  "onlyUnrelated (conn installFails) 2 \<and>
   Install exampleLib installFails ''/tmp/update.raucb'' = awaitCompleted exampleLib installFails 2 \<and>
   InstallBundle exampleLib installFails ''/tmp/update.raucb'' \<lparr>IgnoreIncompatible = False\<rparr> =
     awaitCompleted exampleLib installFails 2 \<and>
   awaitCompleted exampleLib installFails 2 =
     Some (Some (errors_New (CHR 0x22 # ''Failed to verify bundle'' @ [CHR 0x22])), 3) \<and>
   \<not> unrelated (doneChannel (conn installFails) (3 - 1))"
proof -
  have u: "onlyUnrelated (conn installFails) 2"
    by (simp add: installFails_def example_defs eval_nat_numeral)
  have r: "awaitCompleted exampleLib installFails 2 =
      Some (Some (errors_New (CHR 0x22 # ''Failed to verify bundle'' @ [CHR 0x22])), 3)"
    by (subst awaitCompleted.simps)
      (simp add: installFails_def example_defs GetLastError_def eval_nat_numeral)
  from Install_discards_unrelated [OF u, of "''/tmp/update.raucb''" exampleLib
      "\<lparr>IgnoreIncompatible = False\<rparr>"] u r
  show ?thesis
    by (simp add: installFails_def example_defs)
qed

text \<open>
  C4. When the call that starts the install returns an error, \<open>Install\<close> and
  \<open>InstallBundle\<close> return at once the error \<open>RAUC: Install(): \<close> followed by the text of
  that error. No receive is attempted: the count of receives is 0, and the result is
  the same on every connection, whatever its channel would deliver.
\<close>

theorem Install_call_error_short_circuits:
  "(InstallCall p filename = Inl err \<longrightarrow>
      Install d p filename = Some (Some (Errorf ''RAUC: Install(): '' err), 0) \<and>
      (\<forall>c. Install d (p\<lparr>conn := c\<rparr>) filename = Install d p filename)) \<and>
   (InstallBundleCall p filename options = Inl err \<longrightarrow>
      InstallBundle d p filename options = Some (Some (Errorf ''RAUC: Install(): '' err), 0) \<and>
      (\<forall>c. InstallBundle d (p\<lparr>conn := c\<rparr>) filename options =
         InstallBundle d p filename options))"
  by (simp add: InstallCall_def InstallBundleCall_def Install_def InstallBundle_def)

theorem Install_call_error_short_circuits_witness:
  "Install exampleLib daemonAbsent ''/tmp/update.raucb'' =
     Some (Some (errors_New ''RAUC: Install(): The name de.pengutronix.rauc was not provided''), 0) \<and>
   InstallBundle exampleLib daemonAbsent ''/tmp/update.raucb'' \<lparr>IgnoreIncompatible = False\<rparr> =
     Some (Some (errors_New ''RAUC: Install(): The name de.pengutronix.rauc was not provided''), 0) \<and>
   Install exampleLib (daemonAbsent\<lparr>conn := conn installSucceeds\<rparr>) ''/tmp/update.raucb'' =
     Install exampleLib daemonAbsent ''/tmp/update.raucb''"
proof -
  let ?err = "errors_New ''The name de.pengutronix.rauc was not provided''"
  have 1: "InstallCall daemonAbsent ''/tmp/update.raucb'' = Inl ?err"
    by (simp add: daemonAbsent_def example_defs)
  have 2: "InstallBundleCall daemonAbsent ''/tmp/update.raucb'' \<lparr>IgnoreIncompatible = False\<rparr> =
      Inl ?err"
    by (simp add: daemonAbsent_def example_defs)
  from Install_call_error_short_circuits [of daemonAbsent "''/tmp/update.raucb''" ?err
      exampleLib "\<lparr>IgnoreIncompatible = False\<rparr>"] 1 2
  show ?thesis
    by (simp only: Errorf_def Error.simps append.simps simp_thms)
qed

text \<open>
  C5. When the channel is found closed before any \<open>Completed\<close> signal was received
  (after any number of unrelated signals), \<open>Install\<close> and \<open>InstallBundle\<close> return the
  error \<open>RAUC: Cannot read from channel\<close>, not \<open>nil\<close>.
\<close>

theorem Install_channel_closed:
  assumes "onlyUnrelated (conn p) n"
    and "doneChannel (conn p) n = Closed"
  shows "(\<not> isl (InstallCall p filename) \<longrightarrow>
            Install d p filename =
              Some (Some (errors_New ''RAUC: Cannot read from channel''), Suc n)) \<and>
         (\<not> isl (InstallBundleCall p filename options) \<longrightarrow>
            InstallBundle d p filename options =
              Some (Some (errors_New ''RAUC: Cannot read from channel''), Suc n))"
  using awaitCompleted_skip[OF assms(1), of d] awaitCompleted_Closed[OF assms(2), of d]
  by (simp add: Install_awaits InstallBundle_awaits)

theorem Install_channel_closed_witness:
  "Install exampleLib busCloses ''/tmp/update.raucb'' =
     Some (Some (errors_New ''RAUC: Cannot read from channel''), 2) \<and>
   InstallBundle exampleLib busCloses ''/tmp/update.raucb'' \<lparr>IgnoreIncompatible = False\<rparr> =
     Some (Some (errors_New ''RAUC: Cannot read from channel''), 2)"
  using Install_channel_closed [of busCloses 1 "''/tmp/update.raucb''" exampleLib
      "\<lparr>IgnoreIncompatible = False\<rparr>"]
  by (simp add: busCloses_def example_defs eval_nat_numeral)

text \<open>
  C9. The wait has no timeout. When the call that starts the install succeeds, the
  channel is never found closed and no \<open>Completed\<close> signal is ever delivered, \<open>Install\<close>
  and \<open>InstallBundle\<close> never return.
\<close>

theorem Install_never_returns:
  assumes "\<forall>i. doneChannel (conn p) i \<noteq> Closed"
    and "\<forall>i signal. doneChannel (conn p) i = Received signal \<longrightarrow>
           Name signal \<noteq> interfaceForMember ''Completed''"
  shows "(\<not> isl (InstallCall p filename) \<longrightarrow> Install d p filename = None) \<and>
         (\<not> isl (InstallBundleCall p filename options) \<longrightarrow>
            InstallBundle d p filename options = None)"
proof -
  have stays: "unrelated (doneChannel (conn p) k) \<or> doneChannel (conn p) k = Blocked" for k
    using assms by (cases "doneChannel (conn p) k") simp_all
  have "awaitCompleted d p 0 = None"
  proof (cases "awaitCompleted d p 0")
    case (Some y)
    from awaitCompleted_returns[OF this] stays show ?thesis by blast
  qed simp
  then show ?thesis by (simp add: Install_awaits InstallBundle_awaits)
qed

theorem Install_never_returns_witness:
  "Install exampleLib neverCompletes ''/tmp/update.raucb'' = None \<and>
   InstallBundle exampleLib neverCompletes ''/tmp/update.raucb'' \<lparr>IgnoreIncompatible = False\<rparr> =
     None"
  using Install_never_returns [of neverCompletes "''/tmp/update.raucb''" exampleLib
      "\<lparr>IgnoreIncompatible = False\<rparr>"]
  by (simp add: neverCompletes_def example_defs)

section \<open>Construction\<close>

text \<open>
  C10. \<open>InstallerNew\<close> (of the current package and of \<open>installer.go\<close>) fails only when
  \<open>dbus.SystemBus\<close> fails, and then returns \<open>nil\<close> and that error. On a connected bus it
  returns the installer and \<open>nil\<close>: the connection \<open>c\<close> is any connection, so whatever
  its \<open>AddMatchSignal\<close> (or that of its objects) answers is ignored.
\<close>

theorem InstallerNew_ignores_subscription:
  "(\<forall>c. SystemBus d = Inr c \<longrightarrow>
      InstallerNew d = (Some \<lparr>conn = c, object = Object c dbusInterface ''/''\<rparr>, None) \<and>
      InstallerNew_v4 d = (Some \<lparr>conn = c, object = Object c dbusInterface ''/''\<rparr>, None)) \<and>
   (\<forall>err. SystemBus d = Inl err \<longrightarrow>
      InstallerNew d = (None, Some err) \<and> InstallerNew_v4 d = (None, Some err)) \<and>
   (snd (InstallerNew d) \<noteq> None \<longleftrightarrow> isl (SystemBus d)) \<and>
   (snd (InstallerNew_v4 d) \<noteq> None \<longleftrightarrow> isl (SystemBus d))"
  by (cases "SystemBus d") (simp_all add: InstallerNew_def InstallerNew_v4_def)

theorem InstallerNew_ignores_subscription_witness:
  "AddMatchSignal (conn installSucceeds)
       [WithMatchInterface ''de.pengutronix.rauc.Installer'', WithMatchMember ''Completed'',
        WithMatchObjectPath ''/''] = Some (errors_New ''match rule refused'') \<and>
   object_AddMatchSignal (object installSucceeds) ''de.pengutronix.rauc.Installer''
       ''Completed'' [WithMatchObjectPath ''/''] =
     Some (errors_New ''match rule refused'') \<and>
   InstallerNew (exampleLibrary (Inr (conn installSucceeds))) = (Some installSucceeds, None) \<and>
   InstallerNew_v4 (exampleLibrary (Inr (conn installSucceeds))) = (Some installSucceeds, None) \<and>
   InstallerNew exampleLib =
     (None, Some (errors_New ''dial unix /var/run/dbus/system_bus_socket: no such file''))"
proof -
  let ?e = "errors_New ''dial unix /var/run/dbus/system_bus_socket: no such file''"
  have 1: "SystemBus (exampleLibrary (Inr (conn installSucceeds))) = Inr (conn installSucceeds)"
    by (simp add: exampleLibrary_def)
  have 2: "SystemBus exampleLib = Inl ?e"
    by (simp add: exampleLib_def exampleLibrary_def noBus_def)
  have 3: "\<lparr>conn = conn installSucceeds,
             object = Object (conn installSucceeds) dbusInterface ''/''\<rparr> = installSucceeds"
    by (simp add: installSucceeds_def exampleInstaller_def exampleConn_def)
  have 4: "AddMatchSignal (conn installSucceeds)
       [WithMatchInterface ''de.pengutronix.rauc.Installer'', WithMatchMember ''Completed'',
        WithMatchObjectPath ''/''] = Some (errors_New ''match rule refused'')"
    by (simp add: installSucceeds_def exampleInstaller_def exampleConn_def)
  have 5: "object_AddMatchSignal (object installSucceeds) ''de.pengutronix.rauc.Installer''
       ''Completed'' [WithMatchObjectPath ''/''] =
      Some (errors_New ''match rule refused'')"
    by (simp add: installSucceeds_def exampleInstaller_def exampleObject_def)
  from InstallerNew_ignores_subscription [of "exampleLibrary (Inr (conn installSucceeds))"]
    InstallerNew_ignores_subscription [of exampleLib] 1 2 3 4 5
  show ?thesis by simp
qed

section \<open>Properties and slot status\<close>

text \<open>
  C6. In \<open>installer.go\<close>, \<open>GetProgress\<close> drops the error of \<open>dbus.Store\<close>: on a \<open>Progress\<close>
  property whose value is a string, not the three-field aggregate, and a library that
  reports the mismatch, it returns the zero fields and a \<open>nil\<close> error where a decode
  error, distinct from a transport error, is due. \<open>GetProgress\<close> of the current package
  checks that error and returns it.
\<close>

theorem GetProgress_v4_drops_decode_error:
  "GetProperty (object daemonIdle) 0 (interfaceForMember ''Progress'') =
     Inr (MakeVariant (DString ''idle'')) \<and>
   Store_progressResponse_v4 exampleLib [DString ''idle''] =
     (\<lparr>percentage = 0, message = [], nestingDepth = 0\<rparr>,
      Some (errors_New ''dbus.Store: type mismatch'')) \<and>
   GetProgress_v4 exampleLib daemonIdle 0 = (0, '''', 0, None) \<and>
   GetProgress exampleLib daemonIdle 0 =
     (- 1, '''', - 1, Some (errors_New ''RAUC: Cannot store result: dbus.Store: type mismatch''))"
  by (simp add: GetProgress_v4_def GetProgress_def daemonIdle_def example_defs Errorf_def)

text \<open>Whatever the library does, \<open>GetProgress\<close> of \<open>installer.go\<close> reports no decode
  error.\<close>

lemma GetProgress_v4_no_decode_error:
  "GetProperty (object p) now (interfaceForMember ''Progress'') = Inr v \<Longrightarrow>
     snd (snd (snd (GetProgress_v4 d p now))) = None"
  by (simp add: GetProgress_v4_def split: prod.split)

text \<open>\<open>GetProgress\<close> of the current package returns what \<open>Store\<close> decoded with a \<open>nil\<close>
  error, and the error of \<open>Store\<close> behind a context that no transport error has.\<close>

lemma GetProgress_decodes:
  assumes "GetProperty (object p) now (interfaceForMember ''Progress'') = Inr v"
  shows "Store_progressResponse d [Value v] = (r, None) \<Longrightarrow>
           GetProgress d p now = (Percentage r, Message r, NestingDepth r, None)"
    and "Store_progressResponse d [Value v] = (r, Some err) \<Longrightarrow>
           GetProgress d p now =
             (- 1, '''', - 1, Some (Errorf ''RAUC: Cannot store result: '' err))"
    and "Errorf ''RAUC: Cannot store result: '' err \<noteq>
           Errorf ''RAUC: GetProperty(Progress): '' err'"
  using assms by (simp_all add: GetProgress_def Errorf_def)

lemma GetProgress_example:
  "GetProgress exampleLib installSucceeds 0 = (42, ''copying image'', 1, None)"
  by (simp add: GetProgress_def installSucceeds_def example_defs)


subsection \<open>Decoding a slot status reply\<close>

lemma those_decodeAttribute:
  "those (map decodeAttribute (map (\<lambda>(key, v). (DString key, DVariant v)) attributes)) =
     Some (map (\<lambda>(key, v). (key, MakeVariant v)) attributes)"
  by (induction attributes) (simp_all split: prod.split)

lemma decodeSlot_slotEntry:
  "decodeSlot (slotEntry name attributes) =
     Some \<lparr>SlotName = name,
            Status = makeStatus (map (\<lambda>(key, v). (key, MakeVariant v)) attributes)\<rparr>"
  by (simp only: slotEntry_def decodeSlot.simps those_decodeAttribute option.case)

lemma fold_update_map_of:
  "fold (\<lambda>(key, v) m. m(key \<mapsto> v)) kvs m = m ++ map_of (rev kvs)"
  by (induction kvs arbitrary: m) (simp_all split: prod.split add: map_add_upd_left)

lemma makeStatus_lookup:
  assumes "distinct (map fst attributes)" and "(key, v) \<in> set attributes"
  shows "makeStatus (map (\<lambda>(key, v). (key, MakeVariant v)) attributes) key =
           Some (MakeVariant v)"
proof -
  let ?kvs = "map (\<lambda>(key, v). (key, MakeVariant v)) attributes"
  have "(key, MakeVariant v) \<in> set (rev ?kvs)" using assms(2) by force
  moreover have "map fst (rev ?kvs) = rev (map fst attributes)"
    by (simp add: rev_map comp_def case_prod_beta)
  then have "distinct (map fst (rev ?kvs))" using assms(1) by simp
  ultimately have "map_of (rev ?kvs) key = Some (MakeVariant v)"
    by (rule map_of_is_SomeI[rotated])
  then show ?thesis by (simp add: makeStatus_def fold_update_map_of)
qed

lemma makeStatus_dom:
  "dom (makeStatus (map (\<lambda>(key, v). (key, MakeVariant v)) attributes)) = fst ` set attributes"
  by (force simp: makeStatus_def fold_update_map_of dom_map_of_conv_image_fst)

text \<open>
  C8. A \<open>GetSlotStatus\<close> reply that holds two slot entries, each a name and a mapping
  from distinct string keys to values, decodes to exactly two \<open>SlotStatus\<close> entries in
  the order of the reply. Each entry has the name of its slot, gives every attribute of
  the slot under its key, and has no other key. The decoder is the one the spec
  describes.
\<close>

theorem GetSlotStatus_two_slots:
  assumes "Call (object p) (interfaceForMember ''GetSlotStatus'') [] =
             Inr [DArray [slotEntry name0 attributes0, slotEntry name1 attributes1]]"
    and "Store_SlotStatus d = decodeSlotStatus"
    and "distinct (map fst attributes0)" and "distinct (map fst attributes1)"
  shows "\<exists>s0 s1. GetSlotStatus d p = ([s0, s1], None) \<and>
           SlotName s0 = name0 \<and> SlotName s1 = name1 \<and>
           (\<forall>(key, v) \<in> set attributes0. Status s0 key = Some (MakeVariant v)) \<and>
           (\<forall>(key, v) \<in> set attributes1. Status s1 key = Some (MakeVariant v)) \<and>
           dom (Status s0) = fst ` set attributes0 \<and> dom (Status s1) = fst ` set attributes1"
proof -
  have "GetSlotStatus d p =
     ([\<lparr>SlotName = name0,
         Status = makeStatus (map (\<lambda>(key, v). (key, MakeVariant v)) attributes0)\<rparr>,
       \<lparr>SlotName = name1,
         Status = makeStatus (map (\<lambda>(key, v). (key, MakeVariant v)) attributes1)\<rparr>], None)"
    using assms(1,2) by (simp add: GetSlotStatus_def decodeSlot_slotEntry)
  then show ?thesis
    using makeStatus_lookup[OF assms(3)] makeStatus_lookup[OF assms(4)]
    by (auto simp: makeStatus_dom)
qed

theorem GetSlotStatus_two_slots_witness:
  "snd (GetSlotStatus exampleLib installSucceeds) = None \<and>
   length (fst (GetSlotStatus exampleLib installSucceeds)) = 2 \<and>
   SlotName (fst (GetSlotStatus exampleLib installSucceeds) ! 0) = ''rootfs.0'' \<and>
   SlotName (fst (GetSlotStatus exampleLib installSucceeds) ! 1) = ''rootfs.1'' \<and>
   Status (fst (GetSlotStatus exampleLib installSucceeds) ! 0) ''class'' =
     Some (MakeVariant (DString ''rootfs'')) \<and>
   Status (fst (GetSlotStatus exampleLib installSucceeds) ! 0) ''state'' =
     Some (MakeVariant (DString ''booted'')) \<and>
   Status (fst (GetSlotStatus exampleLib installSucceeds) ! 0) ''device'' =
     Some (MakeVariant (DString ''/dev/mmcblk0p1'')) \<and>
   Status (fst (GetSlotStatus exampleLib installSucceeds) ! 1) ''class'' =
     Some (MakeVariant (DString ''rootfs'')) \<and>
   Status (fst (GetSlotStatus exampleLib installSucceeds) ! 1) ''state'' =
     Some (MakeVariant (DString ''inactive'')) \<and>
   Status (fst (GetSlotStatus exampleLib installSucceeds) ! 1) ''device'' =
     Some (MakeVariant (DString ''/dev/mmcblk0p2''))"
proof -
  let ?a0 = "[(''class'', DString ''rootfs''), (''state'', DString ''booted''),
              (''device'', DString ''/dev/mmcblk0p1'')]"
  let ?a1 = "[(''class'', DString ''rootfs''), (''state'', DString ''inactive''),
              (''device'', DString ''/dev/mmcblk0p2'')]"
  have call: "Call (object installSucceeds) (interfaceForMember ''GetSlotStatus'') [] =
      Inr [DArray [slotEntry ''rootfs.0'' ?a0, slotEntry ''rootfs.1'' ?a1]]"
    by (simp add: installSucceeds_def exampleInstaller_def exampleObject_def exampleReply_def
        interfaceForMember_def dbusInterface_def)
  have store: "Store_SlotStatus exampleLib = decodeSlotStatus"
    by (simp add: exampleLib_def exampleLibrary_def)
  have d0: "distinct (map fst ?a0)" and d1: "distinct (map fst ?a1)"
    by simp_all
  from GetSlotStatus_two_slots [OF call store d0 d1]
  show ?thesis by (elim exE conjE) simp
qed

end
